theory Spec2Isabelle
  imports Main "HOL-Library.Word"
begin

unbundle bit_operations_syntax

section \<open>Conventions\<close>

text \<open>
  A JavaScript string is modelled as a \<^typ>\<open>string\<close> holding the UTF-8 bytes of its text
  (one \<^typ>\<open>char\<close> per byte; ASCII text is one \<^typ>\<open>char\<close> per character). The string
  operations the code uses with ASCII patterns (\<open>startsWith\<close>, \<open>split(",")\<close>, the regular
  expression \<open>s-maxage=(\d+)\<close>, template literals) act on this representation exactly as
  they act on the UTF-16 code units of the JavaScript string.

  A JavaScript number is modelled as an \<^typ>\<open>int\<close>: the code only produces integers
  (timestamps in milliseconds, seconds, HTTP statuses), and the model agrees with the
  IEEE doubles of the runtime as long as they stay in the range where doubles are exact.
\<close>

type_synonym byte = "8 word"

section \<open>Response headers (\<open>OutgoingHttpHeaders\<close>)\<close>

text \<open>
  A header value is a string, a string array or a number; \<open>undefined\<close> is the absence of
  the key. The header object is a map from header names to values.
\<close>

datatype hval = HStr string | HArr "string list" | HNum int

type_synonym headers = "string \<Rightarrow> hval option"

definition CACHE_CONTROL :: string where
  "CACHE_CONTROL = ''cache-control''"

definition NEXT_CACHE :: string where
  "NEXT_CACHE = ''x-nextjs-cache''"

text \<open>JavaScript truthiness of \<open>headers[name]\<close>.\<close>

fun truthy :: "hval option \<Rightarrow> bool" where
  "truthy None = False"
| "truthy (Some (HStr s)) = (s \<noteq> [])"
| "truthy (Some (HArr xs)) = True"
| "truthy (Some (HNum n)) = (n \<noteq> 0)"

section \<open>Decimal numerals\<close>

definition digit_char :: "nat \<Rightarrow> char" where
  "digit_char d = char_of (48 + d)"

definition is_digit :: "char \<Rightarrow> bool" where
  "is_digit c = (48 \<le> (of_char c :: nat) \<and> (of_char c :: nat) \<le> 57)"

definition digit_val :: "char \<Rightarrow> nat" where
  "digit_val c = of_char c - 48"

text \<open>\<open>String(n)\<close> and \<open>`${n}`\<close> for a non-negative integer \<open>n\<close>.\<close>

fun string_of_nat :: "nat \<Rightarrow> string" where
  "string_of_nat n =
     (if n < 10 then [digit_char n]
      else string_of_nat (n div 10) @ [digit_char (n mod 10)])"

declare string_of_nat.simps [simp del]

text \<open>
  \<open>`${n}`\<close> for an integer \<open>n\<close>. The runtime prints an integer in full, digit by digit, as
  long as its magnitude is below \<open>2 ^ 53\<close>; the definition covers that range.
\<close>

definition string_of_int :: "int \<Rightarrow> string" where
  "string_of_int i = (if i < 0 then CHR ''-'' # string_of_nat (nat (- i)) else string_of_nat (nat i))"

text \<open>
  \<open>parseInt\<close> on a non-empty run of decimal digits (what \<open>(\d+)\<close> captures). The runtime
  yields a double: it is the number written when that number is below \<open>2 ^ 53\<close>, and a
  rounded value beyond. The definition covers the first range.
\<close>

definition parseInt :: "string \<Rightarrow> int" where
  "parseInt ds = int (foldl (\<lambda>a c. 10 * a + digit_val c) 0 ds)"

section \<open>The header policy of \<open>core/routing/util.ts\<close>\<close>

subsection \<open>\<open>fixCacheHeaderForHtmlPages\<close>\<close>

text \<open>
  \<open>HtmlPages\<close> comes from \<open>config/index.js\<close>, which is not part of the sources at hand: it
  is a parameter.
\<close>

definition fixCacheHeaderForHtmlPages :: "string list \<Rightarrow> string \<Rightarrow> headers \<Rightarrow> headers" where
  "fixCacheHeaderForHtmlPages HtmlPages rawPath hs =
     (if rawPath \<in> set HtmlPages \<and> truthy (hs CACHE_CONTROL)
      then hs(CACHE_CONTROL \<mapsto> HStr ''public, max-age=0, s-maxage=31536000, must-revalidate'')
      else hs)"

subsection \<open>\<open>fixISRHeaders\<close>\<close>

text \<open>
  The first match of \<open>/s-maxage=(\d+)/\<close> in a string: the capture group, a maximal
  non-empty run of digits after the leftmost \<open>s-maxage=\<close> that is followed by a digit.
\<close>

fun match_sMaxAge :: "string \<Rightarrow> string option" where
  "match_sMaxAge [] = None"
| "match_sMaxAge (c # cs) =
     (if take 9 (c # cs) = ''s-maxage='' \<and> takeWhile is_digit (drop 9 (c # cs)) \<noteq> []
      then Some (takeWhile is_digit (drop 9 (c # cs)))
      else match_sMaxAge cs)"

text \<open>\<open>Math.round((now - lastModified) / 1000)\<close>: rounding to nearest, halves upwards.\<close>

definition age_seconds :: "int \<Rightarrow> int \<Rightarrow> int" where
  "age_seconds now lastModified = (now - lastModified + 500) div 1000"

text \<open>
  The global \<open>globalThis.lastModified\<close>. This file declares it \<open>number\<close> and resets it to
  \<open>0\<close>; the cache declares the same global \<open>Record<string, number>\<close> and stores the time of
  a \<open>get\<close> in it under the request id. Either shape can therefore be found there.
  The test \<open>globalThis.lastModified > 0\<close> holds for a number above 0 only: a Record
  converts to \<open>NaN\<close>, for which every comparison is false.
\<close>

datatype lastModified_global = GNumber int | GRecord "string \<Rightarrow> int option"

fun positive_number :: "lastModified_global \<Rightarrow> int option" where
  "positive_number (GNumber n) = (if n > 0 then Some n else None)"
| "positive_number (GRecord r) = None"

text \<open>
  The function mutates the header object and the global; the model takes both and returns
  both. \<open>now\<close> is the value of \<open>Date.now()\<close>.
\<close>

definition fixISRHeaders ::
  "int \<Rightarrow> headers \<times> lastModified_global \<Rightarrow> headers \<times> lastModified_global" where
  "fixISRHeaders now st =
     (case st of (hs, g) \<Rightarrow>
       if hs NEXT_CACHE = Some (HStr ''REVALIDATED'')
       then (hs(CACHE_CONTROL \<mapsto> HStr ''private, no-cache, no-store, max-age=0, must-revalidate''),
             g)
       else
         (case (if hs NEXT_CACHE = Some (HStr ''HIT'') then positive_number g else None) of
            Some lastModified \<Rightarrow>
              (case hs CACHE_CONTROL of
                 Some (HStr cacheControl) \<Rightarrow>
                   (let age = age_seconds now lastModified;
                        sMaxAge = map_option parseInt (match_sMaxAge cacheControl)
                    in case sMaxAge of
                         Some s \<Rightarrow>
                           if s \<noteq> 0 \<and> s \<noteq> 31536000
                           then (hs(CACHE_CONTROL \<mapsto>
                                     HStr (''s-maxage='' @ string_of_int (max (s - age) 1) @
                                           '', stale-while-revalidate=2592000'')), GNumber 0)
                           else (hs, GNumber 0)
                       | None \<Rightarrow> (hs, GNumber 0))
               | _ \<Rightarrow> (hs, g))
          | None \<Rightarrow>
              if hs NEXT_CACHE \<noteq> Some (HStr ''STALE'') then (hs, g)
              else (hs(CACHE_CONTROL \<mapsto> HStr ''s-maxage=2, stale-while-revalidate=2592000''),
                    g)))"

section \<open>Revalidation dispatch (\<open>revalidateIfRequired\<close>)\<close>

subsection \<open>MD5 (\<open>crypto.createHash("md5")\<close>)\<close>

text \<open>
  The dedup id is an MD5 digest in hexadecimal. MD5 belongs to the Node runtime, not to
  the repository; it is written out (RFC 1321) so that the model of the dispatcher is
  closed and can be evaluated.
\<close>

definition md5_s :: "nat list" where
  "md5_s = concat (replicate 4 [7, 12, 17, 22]) @ concat (replicate 4 [5, 9, 14, 20]) @
           concat (replicate 4 [4, 11, 16, 23]) @ concat (replicate 4 [6, 10, 15, 21])"

definition md5_K :: "32 word list" where
  "md5_K =
    [0xd76aa478, 0xe8c7b756, 0x242070db, 0xc1bdceee,
     0xf57c0faf, 0x4787c62a, 0xa8304613, 0xfd469501,
     0x698098d8, 0x8b44f7af, 0xffff5bb1, 0x895cd7be,
     0x6b901122, 0xfd987193, 0xa679438e, 0x49b40821,
     0xf61e2562, 0xc040b340, 0x265e5a51, 0xe9b6c7aa,
     0xd62f105d, 0x02441453, 0xd8a1e681, 0xe7d3fbc8,
     0x21e1cde6, 0xc33707d6, 0xf4d50d87, 0x455a14ed,
     0xa9e3e905, 0xfcefa3f8, 0x676f02d9, 0x8d2a4c8a,
     0xfffa3942, 0x8771f681, 0x6d9d6122, 0xfde5380c,
     0xa4beea44, 0x4bdecfa9, 0xf6bb4b60, 0xbebfbc70,
     0x289b7ec6, 0xeaa127fa, 0xd4ef3085, 0x04881d05,
     0xd9d4d039, 0xe6db99e5, 0x1fa27cf8, 0xc4ac5665,
     0xf4292244, 0x432aff97, 0xab9423a7, 0xfc93a039,
     0x655b59c3, 0x8f0ccc92, 0xffeff47d, 0x85845dd1,
     0x6fa87e4f, 0xfe2ce6e0, 0xa3014314, 0x4e0811a1,
     0xf7537e82, 0xbd3af235, 0x2ad7d2bb, 0xeb86d391]"

definition md5_pad :: "byte list \<Rightarrow> byte list" where
  "md5_pad m =
     m @ [0x80] @ replicate ((119 - length m mod 64) mod 64) 0 @
     map (\<lambda>i. ucast (drop_bit (8 * i) (word_of_nat (8 * length m) :: 64 word))) [0..<8]"

definition le32 :: "byte list \<Rightarrow> 32 word" where
  "le32 bs = foldr (\<lambda>b w. ucast b OR push_bit 8 w) bs 0"

definition bytes_le32 :: "32 word \<Rightarrow> byte list" where
  "bytes_le32 w = map (\<lambda>i. ucast (drop_bit (8 * i) w)) [0..<4]"

fun chunks :: "nat \<Rightarrow> 'a list \<Rightarrow> 'a list list" where
  "chunks n xs = (if n = 0 \<or> xs = [] then [] else take n xs # chunks n (drop n xs))"

declare chunks.simps [simp del]

type_synonym md5_state = "32 word \<times> 32 word \<times> 32 word \<times> 32 word"

definition md5_step :: "32 word list \<Rightarrow> md5_state \<Rightarrow> nat \<Rightarrow> md5_state" where
  "md5_step M st i =
     (case st of (A, B, C, D) \<Rightarrow>
       let (F, g) =
             (if i < 16 then ((B AND C) OR (NOT B AND D), i)
              else if i < 32 then ((D AND B) OR (NOT D AND C), (5 * i + 1) mod 16)
              else if i < 48 then (B XOR C XOR D, (3 * i + 5) mod 16)
              else (C XOR (B OR NOT D), (7 * i) mod 16));
           F' = F + A + md5_K ! i + M ! g
       in (D, B + word_rotl (md5_s ! i) F', B, C))"

definition md5_block :: "md5_state \<Rightarrow> byte list \<Rightarrow> md5_state" where
  "md5_block st block =
     (case st of (a0, b0, c0, d0) \<Rightarrow>
        case foldl (md5_step (map le32 (chunks 4 block))) st [0..<64] of
          (A, B, C, D) \<Rightarrow> (a0 + A, b0 + B, c0 + C, d0 + D))"

definition md5 :: "byte list \<Rightarrow> byte list" where
  "md5 m =
     (case foldl md5_block (0x67452301, 0xefcdab89, 0x98badcfe, 0x10325476)
             (chunks 64 (md5_pad m)) of
        (a, b, c, d) \<Rightarrow> bytes_le32 a @ bytes_le32 b @ bytes_le32 c @ bytes_le32 d)"

definition hex_digit :: "nat \<Rightarrow> char" where
  "hex_digit d = (if d < 10 then char_of (48 + d) else char_of (87 + d))"

definition hex :: "byte list \<Rightarrow> string" where
  "hex bs = concat (map (\<lambda>b. [hex_digit (unat b div 16), hex_digit (unat b mod 16)]) bs)"

text \<open>The bytes of a string (\<open>update(str)\<close> hashes its UTF-8 encoding).\<close>

definition bytes_of :: "string \<Rightarrow> byte list" where
  "bytes_of s = map (\<lambda>c. word_of_nat (of_char c)) s"

text \<open>The local \<open>hash = (str) => crypto.createHash("md5").update(str).digest("hex")\<close>.\<close>

definition hash :: "string \<Rightarrow> string" where
  "hash str = hex (md5 (bytes_of str))"

subsection \<open>The lane id (\<open>cyrb128\<close>, \<open>generateMessageGroupId\<close>)\<close>

text \<open>
  \<open>str.charCodeAt(i)\<close> reads UTF-16 code units: they are decoded from the UTF-8 bytes
  that represent the string.
\<close>

definition utf8_seq_len :: "nat \<Rightarrow> nat" where
  "utf8_seq_len b = (if b < 0xC0 then 1 else if b < 0xE0 then 2 else if b < 0xF0 then 3 else 4)"

fun utf8_code_point :: "nat list \<Rightarrow> nat" where
  "utf8_code_point [] = 0"
| "utf8_code_point [a] = a"
| "utf8_code_point (a # rest) =
     foldl (\<lambda>v b. v * 64 + b mod 64) (a mod 2 ^ (6 - length rest)) rest"

definition utf16_units :: "nat \<Rightarrow> nat list" where
  "utf16_units cp =
     (if cp < 0x10000 then [cp]
      else [0xD800 + (cp - 0x10000) div 1024, 0xDC00 + (cp - 0x10000) mod 1024])"

function charCodes :: "string \<Rightarrow> nat list" where
  "charCodes [] = []"
| "charCodes (c # cs) =
     utf16_units (utf8_code_point (map of_char (take (utf8_seq_len (of_char c)) (c # cs)))) @
     charCodes (drop (utf8_seq_len (of_char c) - 1) cs)"
  by pat_completeness auto
termination
  by (relation "measure length") auto

text \<open>
  \<open>Math.imul\<close> and the bitwise operators work on 32-bit integers: the four state words
  are \<^typ>\<open>32 word\<close>. The fourth line of the loop body reads the already updated \<open>h1\<close>.
\<close>

type_synonym cyrb_state = "32 word \<times> 32 word \<times> 32 word \<times> 32 word"

definition cyrb128_step :: "cyrb_state \<Rightarrow> nat \<Rightarrow> cyrb_state" where
  "cyrb128_step st k =
     (case st of (h1, h2, h3, h4) \<Rightarrow>
        let h1' = h2 XOR ((h1 XOR word_of_nat k) * 597399067);
            h2' = h3 XOR ((h2 XOR word_of_nat k) * 2869860233);
            h3' = h4 XOR ((h3 XOR word_of_nat k) * 951274213);
            h4' = h1' XOR ((h4 XOR word_of_nat k) * 2716044179)
        in (h1', h2', h3', h4'))"

definition cyrb128 :: "string \<Rightarrow> 32 word" where
  "cyrb128 str =
     (case foldl cyrb128_step (1779033703, 3144134277, 1013904242, 2773480762) (charCodes str) of
        (h1, h2, h3, h4) \<Rightarrow>
          let h1' = (h3 XOR drop_bit 18 h1) * 597399067;
              h2' = (h4 XOR drop_bit 22 h2) * 2869860233;
              h3' = (h1' XOR drop_bit 17 h3) * 951274213;
              h4' = (h2' XOR drop_bit 19 h4) * 2716044179
          in h1' XOR (h2' XOR h3' XOR h4'))"

text \<open>
  \<open>maxConcurrency\<close> is \<open>parseInt(process.env.MAX_REVALIDATE_CONCURRENCY ?? "10")\<close>, taken
  as a parameter. \<open>Math.floor(randomFloat * maxConcurrency)\<close> with
  \<open>randomFloat = u / 4294967296\<close> is \<open>u * maxConcurrency div 2 ^ 32\<close>.
\<close>

definition generateMessageGroupId :: "nat \<Rightarrow> string \<Rightarrow> string" where
  "generateMessageGroupId maxConcurrency rawPath =
     (let a = cyrb128 rawPath;
          t0 = a + 0x6d2b79f5;
          t1 = (t0 XOR drop_bit 15 t0) * (t0 OR 1);
          t2 = t1 XOR (t1 + (t1 XOR drop_bit 7 t1) * (t1 OR 61));
          randomInt = unat (t2 XOR drop_bit 14 t2) * maxConcurrency div 2 ^ 32
      in ''revalidate-'' @ string_of_nat randomInt)"

subsection \<open>Collaborator failures and logging\<close>

text \<open>
  The collaborators (artifact store, tag store) are reached through asynchronous calls
  that may reject. A rejection is a value of \<open>error\<close>, tagged with the operation that
  raised it; \<open>TypeError\<close> is the runtime's own error for a property read on \<open>undefined\<close>.
\<close>

datatype op =
  ClientGet | ClientSet | ClientDelete
| TagGetLastModified | TagGetByPath | TagWriteTags

datatype error = Thrown op | TypeError

text \<open>
  Lines written through \<open>logger.js\<close> with \<open>error\<close> and \<open>warn\<close>. The output of \<open>debug\<close> is
  not modelled.
\<close>

datatype log_entry =
  LogError string error
| LogWarn string

subsection \<open>\<open>revalidateIfRequired\<close>\<close>

text \<open>\<open>req?.[Symbol.for("NextInternalRequestMeta")]\<close> with the two fields the code reads.\<close>

record internal_meta =
  nextDidRewrite :: "bool option"
  nextRewroteUrl :: "string option"

record incoming_message =
  NextInternalRequestMeta :: "internal_meta option"

text \<open>The argument of \<open>globalThis.queue.send\<close>; the message body is \<open>{ host, url }\<close>.\<close>

record queue_message =
  MessageBody_host :: string
  MessageBody_url :: "string option"
  MessageDeduplicationId :: string
  MessageGroupId :: string

text \<open>
  The state the function reads and writes: the response headers, the global
  \<open>globalThis.lastModified\<close>, and the queue. \<open>queue_calls\<close> lists the argument of every
  call of \<open>queue.send\<close> in order. A rejection of that call is caught by the \<open>try\<close> block,
  whose handler only writes \<open>debug\<close> lines: the outcome of the call does not change the
  state.
\<close>

record server_state =
  hdrs :: headers
  g_lastModified :: lastModified_global
  queue_calls :: "queue_message list"

definition startsWith :: "string \<Rightarrow> string \<Rightarrow> bool" where
  "startsWith s p = (take (length p) s = p)"

text \<open>A possibly undefined string inside a template literal.\<close>

definition template :: "string option \<Rightarrow> string" where
  "template v = (case v of None \<Rightarrow> ''undefined'' | Some s \<Rightarrow> s)"

text \<open>\<open>BuildId\<close> comes from \<open>config/index.js\<close> and is a parameter.\<close>

definition revalidateUrl :: "string \<Rightarrow> string \<Rightarrow> incoming_message option \<Rightarrow> string option" where
  "revalidateUrl BuildId rawPath req =
     (let internalMeta = (case req of None \<Rightarrow> None | Some r \<Rightarrow> NextInternalRequestMeta r)
      in case internalMeta of
           None \<Rightarrow> Some rawPath
         | Some m \<Rightarrow>
             if nextDidRewrite m = Some True
             then if startsWith rawPath ''/_next/data/''
                  then Some (''/_next/data/'' @ BuildId @ template (nextRewroteUrl m) @ ''.json'')
                  else nextRewroteUrl m
             else Some rawPath)"

text \<open>
  The string that is hashed: \<open>`${rawPath}-${lastModified}`\<close> with
  \<open>lastModified = globalThis.lastModified > 0 ? globalThis.lastModified : ""\<close>.
\<close>

definition dedup_string :: "string \<Rightarrow> lastModified_global \<Rightarrow> string" where
  "dedup_string rawPath g =
     rawPath @ ''-'' @
     (case positive_number g of Some lastModified \<Rightarrow> string_of_int lastModified | None \<Rightarrow> [])"

definition revalidateIfRequired ::
  "string \<Rightarrow> nat \<Rightarrow> int \<Rightarrow> string \<Rightarrow> string \<Rightarrow> incoming_message option \<Rightarrow>
   server_state \<Rightarrow> server_state" where
  "revalidateIfRequired BuildId maxConcurrency now host rawPath req st =
     (case fixISRHeaders now (hdrs st, g_lastModified st) of
        (hs, lm) \<Rightarrow>
          let st1 = st\<lparr>hdrs := hs, g_lastModified := lm\<rparr> in
          if hs NEXT_CACHE = Some (HStr ''STALE'')
          then
            let msg = \<lparr>MessageBody_host = host,
                       MessageBody_url = revalidateUrl BuildId rawPath req,
                       MessageDeduplicationId = hash (dedup_string rawPath lm),
                       MessageGroupId = generateMessageGroupId maxConcurrency rawPath\<rparr>
            in st1\<lparr>queue_calls := queue_calls st1 @ [msg]\<rparr>
          else st1)"

section \<open>Buffers and their text encodings\<close>

text \<open>
  A \<open>Buffer\<close> is a list of bytes. \<open>buf.toString(encoding)\<close> and \<open>Buffer.from(str, encoding)\<close>
  belong to the Node runtime; the two encodings the cache uses are written out.
\<close>

definition char_of_byte :: "byte \<Rightarrow> char" where
  "char_of_byte b = char_of (unat b)"

definition byte_of_char :: "char \<Rightarrow> byte" where
  "byte_of_char c = word_of_nat (of_char c)"

subsection \<open>UTF-8\<close>

text \<open>
  Decoding reads one sequence at a time. \<open>utf8_cont needed lower upper rest\<close> reads up to
  \<open>needed\<close> continuation bytes, the first of which must lie in \<open>[lower, upper]\<close> and the
  others in \<open>[0x80, 0xBF]\<close>; it returns how many bytes it accepted and whether the sequence
  is complete. A byte that does not fit is not consumed.
\<close>

fun utf8_cont :: "nat \<Rightarrow> nat \<Rightarrow> nat \<Rightarrow> nat list \<Rightarrow> nat \<times> bool" where
  "utf8_cont 0 lower upper rest = (0, True)"
| "utf8_cont (Suc n) lower upper [] = (0, False)"
| "utf8_cont (Suc n) lower upper (b # rest) =
     (if lower \<le> b \<and> b \<le> upper
      then (case utf8_cont n 0x80 0xBF rest of (k, ok) \<Rightarrow> (Suc k, ok))
      else (0, False))"

text \<open>
  \<open>utf8_head b rest\<close>: the number of bytes after the lead byte \<open>b\<close> that belong to the
  sequence it starts, and whether that sequence is well formed.
\<close>

definition utf8_head :: "nat \<Rightarrow> nat list \<Rightarrow> nat \<times> bool" where
  "utf8_head b rest =
     (if b < 0x80 then (0, True)
      else if 0xC2 \<le> b \<and> b \<le> 0xDF then utf8_cont 1 0x80 0xBF rest
      else if 0xE0 \<le> b \<and> b \<le> 0xEF
        then utf8_cont 2 (if b = 0xE0 then 0xA0 else 0x80) (if b = 0xED then 0x9F else 0xBF) rest
      else if 0xF0 \<le> b \<and> b \<le> 0xF4
        then utf8_cont 3 (if b = 0xF0 then 0x90 else 0x80) (if b = 0xF4 then 0x8F else 0xBF) rest
      else (0, False))"

text \<open>
  \<open>buf.toString("utf8")\<close>: well-formed sequences are kept, every ill-formed one (a lead
  byte with the continuation bytes accepted so far, or a byte that cannot start a
  sequence) becomes U+FFFD, whose UTF-8 bytes are \<open>EF BF BD\<close>.
\<close>

function toString_utf8 :: "byte list \<Rightarrow> string" where
  "toString_utf8 [] = []"
| "toString_utf8 (b # bs) =
     (case utf8_head (unat b) (map unat bs) of
        (k, ok) \<Rightarrow>
          (if ok then map char_of_byte (b # take k bs) else [CHR 0xEF, CHR 0xBF, CHR 0xBD]) @
          toString_utf8 (drop k bs))"
  by pat_completeness auto
termination
  by (relation "measure length") auto

text \<open>\<open>Buffer.from(str, "utf8")\<close>: the UTF-8 bytes of the string.\<close>

definition from_utf8 :: "string \<Rightarrow> byte list" where
  "from_utf8 s = map byte_of_char s"


subsection \<open>Base64\<close>

definition b64_char :: "nat \<Rightarrow> char" where
  "b64_char n =
     (if n < 26 then char_of (65 + n)
      else if n < 52 then char_of (71 + n)
      else if n < 62 then char_of (n - 4)
      else if n = 62 then CHR ''+'' else CHR ''/'')"

text \<open>\<open>buf.toString("base64")\<close>: the standard alphabet, padded with \<open>=\<close>.\<close>

fun toString_base64 :: "byte list \<Rightarrow> string" where
  "toString_base64 [] = []"
| "toString_base64 [a] =
     [b64_char (unat a div 4), b64_char (unat a mod 4 * 16), CHR ''='', CHR ''='']"
| "toString_base64 [a, b] =
     [b64_char (unat a div 4), b64_char (unat a mod 4 * 16 + unat b div 16),
      b64_char (unat b mod 16 * 4), CHR ''='']"
| "toString_base64 (a # b # c # rest) =
     [b64_char (unat a div 4), b64_char (unat a mod 4 * 16 + unat b div 16),
      b64_char (unat b mod 16 * 4 + unat c div 64), b64_char (unat c mod 64)] @
     toString_base64 rest"

text \<open>
  \<open>Buffer.from(str, "base64")\<close>: the decoder stops at the first \<open>=\<close>; before it, it accepts
  the standard and the URL-safe alphabet and passes over every other character; a
  trailing group of two or three digits gives one or two bytes.
\<close>

definition b64_value :: "char \<Rightarrow> nat option" where
  "b64_value c =
     (let n = (of_char c :: nat) in
      if 65 \<le> n \<and> n \<le> 90 then Some (n - 65)
      else if 97 \<le> n \<and> n \<le> 122 then Some (n - 71)
      else if 48 \<le> n \<and> n \<le> 57 then Some (n + 4)
      else if c = CHR ''+'' \<or> c = CHR ''-'' then Some 62
      else if c = CHR ''/'' \<or> c = CHR ''_'' then Some 63
      else None)"

fun b64_bytes :: "nat list \<Rightarrow> byte list" where
  "b64_bytes (a # b # c # d # rest) =
     [word_of_nat (a * 4 + b div 16), word_of_nat (b mod 16 * 16 + c div 4),
      word_of_nat (c mod 4 * 64 + d)] @ b64_bytes rest"
| "b64_bytes [a, b, c] = [word_of_nat (a * 4 + b div 16), word_of_nat (b mod 16 * 16 + c div 4)]"
| "b64_bytes [a, b] = [word_of_nat (a * 4 + b div 16)]"
| "b64_bytes _ = []"

definition from_base64 :: "string \<Rightarrow> byte list" where
  "from_base64 s =
     b64_bytes (List.map_filter b64_value (takeWhile (\<lambda>c. c \<noteq> CHR ''='') s))"

section \<open>The incremental cache (\<open>S3Cache\<close>)\<close>

subsection \<open>Cache artifacts\<close>

text \<open>
  \<open>Object\<close>-typed payloads (\<open>pageData\<close>, \<open>props\<close>) are JSON values; \<open>typeof v === "string"\<close>
  holds for \<open>JStr\<close> only. A field that may be \<open>undefined\<close> is an \<open>option\<close>.
\<close>

datatype json =
  JNull | JBool bool | JNum int | JStr string | JArr "json list" | JObj "(string \<times> json) list"

text \<open>\<open>CachedFetchValue.data\<close>.\<close>

record fetch_data =
  fd_headers :: "string \<Rightarrow> string option"
  fd_body :: string
  fd_url :: string
  fd_status :: "int option"
  fd_tags :: "string list option"

text \<open>
  \<open>IncrementalCacheValue\<close>, one constructor per \<open>kind\<close>, with the fields in the order of
  the interfaces:
  \<^item> \<open>FETCH data revalidate\<close>
  \<^item> \<open>REDIRECT props\<close>
  \<^item> \<open>ROUTE body status headers\<close>
  \<^item> \<open>IMAGE etag buffer extension isMiss isStale\<close>
  \<^item> \<open>PAGE html pageData status headers\<close>
\<close>

datatype IncrementalCacheValue =
  FETCH fetch_data int
| REDIRECT "json option"
| ROUTE "byte list" "int option" "headers option"
| IMAGE string "byte list" string "bool option" "bool option"
| PAGE "string option" "json option" "int option" "headers option"

text \<open>\<open>IncrementalCacheContext\<close>; \<open>set\<close> reads \<open>tags\<close> only.\<close>

record IncrementalCacheContext =
  tags :: "string list option"

text \<open>\<open>CacheHandlerValue\<close> as \<open>get\<close> builds it (\<open>lastModified\<close> and \<open>value\<close>).\<close>

record CacheHandlerValue =
  chv_lastModified :: int
  chv_value :: IncrementalCacheValue

subsection \<open>What the artifact store holds\<close>

text \<open>
  The record the artifact store keeps for the non-fetch variant: a \<open>type\<close> discriminator,
  the payload fields of the four shapes, and \<open>meta\<close>.
\<close>

record cache_meta =
  meta_status :: "int option"
  meta_headers :: "headers option"

record cache_data =
  cd_type :: "string option"
  cd_body :: "string option"
  cd_html :: "string option"
  cd_json :: "json option"
  cd_rsc :: "json option"
  cd_props :: "json option"
  cd_meta :: "cache_meta option"

definition empty_cache_data :: cache_data where
  "empty_cache_data =
     \<lparr>cd_type = None, cd_body = None, cd_html = None, cd_json = None, cd_rsc = None,
      cd_props = None, cd_meta = None\<rparr>"

subsection \<open>The collaborators and the globals\<close>

text \<open>Every call made on a collaborator, with its arguments.\<close>

datatype call =
  CallClientGet string bool
| CallClientSetCache string cache_data
| CallClientSetFetch string fetch_data int
| CallClientDelete string
| CallGetLastModified string "int option"
| CallGetByPath string
| CallWriteTags "(string \<times> string) list"

text \<open>
  The interfaces \<open>IncrementalCache\<close> and \<open>TagCache\<close> are implemented outside the sources at
  hand. The world holds a reference implementation of both:
  \<^item> \<open>cache_objects\<close> and \<open>fetch_objects\<close> are the artifact store, one map per variant,
    from a key to the stored value and its last-write time; a write stamps the object
    with \<open>clock\<close>;
  \<^item> \<open>tag_bindings\<close> lists the \<open>{path, tag}\<close> items written to the tag store, in order;
  \<^item> \<open>tag_lastModified\<close> is the answer of \<open>tagClient.getLastModified(key, lastModified)\<close>;
  \<^item> \<open>failing\<close> tells which operations reject when called;
  \<^item> \<open>calls\<close> is the trace of the collaborator calls, \<open>logs\<close> the lines logged, and
    \<open>unhandled\<close> the rejections of promises that nothing awaits.
  The globals are \<open>disableIncrementalCache\<close>, \<open>als_store\<close> (the value of
  \<open>globalThis.__als.getStore()\<close>) and \<open>lastModified_by_request\<close>: the Record that the cache
  keeps in the global \<open>globalThis.lastModified\<close> (declared \<open>Record<string, number>\<close> in this
  file), from a request id to the time recorded for it. It is what \<open>fixISRHeaders\<close> and
  \<open>revalidateIfRequired\<close> find in that global after a \<open>get\<close>, as \<open>GRecord\<close>.
\<close>

record world =
  disableIncrementalCache :: bool
  cache_objects :: "string \<Rightarrow> (cache_data \<times> int) option"
  fetch_objects :: "string \<Rightarrow> ((fetch_data \<times> int) \<times> int) option"
  clock :: int
  tag_bindings :: "(string \<times> string) list"
  tag_lastModified :: "string \<Rightarrow> int option \<Rightarrow> int"
  failing :: "op \<Rightarrow> bool"
  calls :: "call list"
  logs :: "log_entry list"
  unhandled :: "error list"
  als_store :: "string option"
  lastModified_by_request :: "string \<Rightarrow> int option"

definition record_call :: "call \<Rightarrow> world \<Rightarrow> world" where
  "record_call c w = w\<lparr>calls := calls w @ [c]\<rparr>"

definition log_error :: "string \<Rightarrow> error \<Rightarrow> world \<Rightarrow> world" where
  "log_error msg e w = w\<lparr>logs := logs w @ [LogError msg e]\<rparr>"

definition log_warn :: "string \<Rightarrow> world \<Rightarrow> world" where
  "log_warn msg w = w\<lparr>logs := logs w @ [LogWarn msg]\<rparr>"

text \<open>\<open>client.get(key, false)\<close>: \<open>{ value, lastModified }\<close>, both undefined for a missing key.\<close>

definition client_get_cache ::
  "world \<Rightarrow> string \<Rightarrow> (error + cache_data option \<times> int option) \<times> world" where
  "client_get_cache w key =
     (let w1 = record_call (CallClientGet key False) w in
      if failing w ClientGet then (Inl (Thrown ClientGet), w1)
      else (Inr (map_option fst (cache_objects w key), map_option snd (cache_objects w key)), w1))"

text \<open>\<open>client.get(key, true)\<close>.\<close>

definition client_get_fetch ::
  "world \<Rightarrow> string \<Rightarrow> (error + (fetch_data \<times> int) option \<times> int option) \<times> world" where
  "client_get_fetch w key =
     (let w1 = record_call (CallClientGet key True) w in
      if failing w ClientGet then (Inl (Thrown ClientGet), w1)
      else (Inr (map_option fst (fetch_objects w key), map_option snd (fetch_objects w key)), w1))"

text \<open>\<open>client.set(key, value, false)\<close>.\<close>

definition client_set_cache :: "world \<Rightarrow> string \<Rightarrow> cache_data \<Rightarrow> (error + unit) \<times> world" where
  "client_set_cache w key v =
     (let w1 = record_call (CallClientSetCache key v) w in
      if failing w ClientSet then (Inl (Thrown ClientSet), w1)
      else (Inr (), w1\<lparr>cache_objects := (cache_objects w1)(key \<mapsto> (v, clock w1))\<rparr>))"

text \<open>\<open>client.set(key, data, true)\<close>.\<close>

definition client_set_fetch ::
  "world \<Rightarrow> string \<Rightarrow> fetch_data \<Rightarrow> int \<Rightarrow> (error + unit) \<times> world" where
  "client_set_fetch w key d r =
     (let w1 = record_call (CallClientSetFetch key d r) w in
      if failing w ClientSet then (Inl (Thrown ClientSet), w1)
      else (Inr (), w1\<lparr>fetch_objects := (fetch_objects w1)(key \<mapsto> ((d, r), clock w1))\<rparr>))"

text \<open>\<open>client.delete(key)\<close>.\<close>

definition client_delete :: "world \<Rightarrow> string \<Rightarrow> (error + unit) \<times> world" where
  "client_delete w key =
     (let w1 = record_call (CallClientDelete key) w in
      if failing w ClientDelete then (Inl (Thrown ClientDelete), w1)
      else (Inr (), w1\<lparr>cache_objects := (cache_objects w1)(key := None)\<rparr>))"

text \<open>\<open>tagClient.getLastModified(key, lastModified)\<close>.\<close>

definition tag_getLastModified :: "world \<Rightarrow> string \<Rightarrow> int option \<Rightarrow> (error + int) \<times> world" where
  "tag_getLastModified w key lm =
     (let w1 = record_call (CallGetLastModified key lm) w in
      if failing w TagGetLastModified then (Inl (Thrown TagGetLastModified), w1)
      else (Inr (tag_lastModified w key lm), w1))"

text \<open>\<open>tagClient.getByPath(key)\<close>: the tags bound to the key.\<close>

definition bound_tags :: "world \<Rightarrow> string \<Rightarrow> string list" where
  "bound_tags w key = map snd (filter (\<lambda>b. fst b = key) (tag_bindings w))"

definition tag_getByPath :: "world \<Rightarrow> string \<Rightarrow> (error + string list) \<times> world" where
  "tag_getByPath w key =
     (let w1 = record_call (CallGetByPath key) w in
      if failing w TagGetByPath then (Inl (Thrown TagGetByPath), w1)
      else (Inr (bound_tags w key), w1))"

text \<open>\<open>tagClient.writeTags(items)\<close>, each item a pair \<open>(path, tag)\<close>.\<close>

definition tag_writeTags :: "world \<Rightarrow> (string \<times> string) list \<Rightarrow> (error + unit) \<times> world" where
  "tag_writeTags w items =
     (let w1 = record_call (CallWriteTags items) w in
      if failing w TagWriteTags then (Inl (Thrown TagWriteTags), w1)
      else (Inr (), w1\<lparr>tag_bindings := tag_bindings w1 @ items\<rparr>))"

subsection \<open>Helpers of the runtime\<close>

text \<open>\<open>xs.join(",")\<close>, which is also \<open>String(xs)\<close> for an array of strings.\<close>

fun join_comma :: "string list \<Rightarrow> string" where
  "join_comma [] = []"
| "join_comma [x] = x"
| "join_comma (x # y # ys) = x @ '','' @ join_comma (y # ys)"

text \<open>\<open>String(v)\<close> for a header value that may be undefined.\<close>

fun String_of :: "hval option \<Rightarrow> string" where
  "String_of None = ''undefined''"
| "String_of (Some (HStr s)) = s"
| "String_of (Some (HArr xs)) = join_comma xs"
| "String_of (Some (HNum n)) = string_of_int n"

text \<open>\<open>s.split(",")\<close>: the empty string gives one empty piece.\<close>

fun split_comma :: "string \<Rightarrow> string list" where
  "split_comma [] = [[]]"
| "split_comma (c # cs) =
     (if c = CHR '','' then [] # split_comma cs
      else (case split_comma cs of
              [] \<Rightarrow> [[c]]
            | piece # pieces \<Rightarrow> (c # piece) # pieces))"

subsection \<open>\<open>get\<close>\<close>

text \<open>
  \<open>isBinaryContentType\<close> comes from \<open>./binary.js\<close>, which is not part of the sources at hand:
  the functions that call it take it as their first parameter.
\<close>

definition getFetchCache :: "world \<Rightarrow> string \<Rightarrow> CacheHandlerValue option \<times> world" where
  "getFetchCache w key =
     (case client_get_fetch w key of
        (Inl e, w1) \<Rightarrow> (None, log_error ''Failed to get fetch cache'' e w1)
      | (Inr (val, lastModified), w1) \<Rightarrow>
          (case tag_getLastModified w1 key lastModified of
             (Inl e, w2) \<Rightarrow> (None, log_error ''Failed to get fetch cache'' e w2)
           | (Inr lastModified', w2) \<Rightarrow>
               if lastModified' = - 1 then (None, w2)
               else (case val of
                       None \<Rightarrow> (None, w2)
                     | Some (d, r) \<Rightarrow>
                         (Some \<lparr>chv_lastModified = lastModified', chv_value = FETCH d r\<rparr>, w2))))"

definition getIncrementalCache ::
  "(string \<Rightarrow> bool) \<Rightarrow> world \<Rightarrow> string \<Rightarrow> CacheHandlerValue option \<times> world" where
  "getIncrementalCache isBinaryContentType w key =
     (case client_get_cache w key of
        (Inl e, w1) \<Rightarrow> (None, log_error ''Failed to get body cache'' e w1)
      | (Inr (cacheData, lastModified), w1) \<Rightarrow>
          (let meta = Option.bind cacheData cd_meta in
           case tag_getLastModified w1 key lastModified of
             (Inl e, w2) \<Rightarrow> (None, log_error ''Failed to get body cache'' e w2)
           | (Inr lastModified', w2) \<Rightarrow>
               if lastModified' = - 1 then (None, w2)
               else
                 (let requestId = (case als_store w2 of None \<Rightarrow> [] | Some r \<Rightarrow> r);
                      w3 = w2\<lparr>lastModified_by_request :=
                                 (lastModified_by_request w2)(requestId \<mapsto> lastModified')\<rparr>;
                      type = Option.bind cacheData cd_type
                  in if type = Some ''route''
                     then
                       (Some \<lparr>chv_lastModified = lastModified',
                              chv_value =
                                ROUTE
                                  (case Option.bind cacheData cd_body of
                                     None \<Rightarrow> []
                                   | Some body \<Rightarrow>
                                       if isBinaryContentType
                                            (String_of
                                               (Option.bind (Option.bind meta meta_headers)
                                                  (\<lambda>hs. hs ''content-type'')))
                                       then from_base64 body
                                       else from_utf8 body)
                                  (Option.bind meta meta_status)
                                  (Option.bind meta meta_headers)\<rparr>, w3)
                     else if type = Some ''page'' \<or> type = Some ''app''
                     then
                       (Some \<lparr>chv_lastModified = lastModified',
                              chv_value =
                                PAGE
                                  (Option.bind cacheData cd_html)
                                  (if type = Some ''page''
                                   then Option.bind cacheData cd_json
                                   else Option.bind cacheData cd_rsc)
                                  (Option.bind meta meta_status)
                                  (Option.bind meta meta_headers)\<rparr>, w3)
                     else if type = Some ''redirect''
                     then
                       (Some \<lparr>chv_lastModified = lastModified',
                              chv_value = REDIRECT (Option.bind cacheData cd_props)\<rparr>, w3)
                     else (None, log_warn ''Unknown cache type'' w3))))"

text \<open>
  The second argument of \<open>get\<close>: a boolean, or an object with \<open>fetchCache\<close> and \<open>kindHint\<close>;
  \<open>None\<close> when it is omitted.
\<close>

datatype kindHint = App | Pages | Fetch

datatype get_options = OptBoolean bool | OptObject "bool option" "kindHint option"

fun isFetchCache :: "get_options option \<Rightarrow> bool" where
  "isFetchCache None = False"
| "isFetchCache (Some (OptBoolean b)) = b"
| "isFetchCache (Some (OptObject fetchCache (Some hint))) = (hint = Fetch)"
| "isFetchCache (Some (OptObject fetchCache None)) = (fetchCache = Some True)"

definition get ::
  "(string \<Rightarrow> bool) \<Rightarrow> world \<Rightarrow> string \<Rightarrow> get_options option \<Rightarrow>
   CacheHandlerValue option \<times> world" where
  "get isBinaryContentType w key options =
     (if disableIncrementalCache w then (None, w)
      else if isFetchCache options then getFetchCache w key
      else getIncrementalCache isBinaryContentType w key)"

subsection \<open>\<open>set\<close>\<close>

text \<open>
  The tags derived from the artifact. \<open>.split\<close> on a header value that is not a string
  raises a \<open>TypeError\<close>.
\<close>

definition derivedTags ::
  "IncrementalCacheValue option \<Rightarrow> IncrementalCacheContext option \<Rightarrow> error + string list" where
  "derivedTags data ctx =
     (case data of
        Some (FETCH d r) \<Rightarrow>
          Inr (case Option.bind ctx tags of
                 Some ts \<Rightarrow> ts
               | None \<Rightarrow> (case fd_tags d of Some ts \<Rightarrow> ts | None \<Rightarrow> []))
      | Some (PAGE html pageData status headers) \<Rightarrow>
          (case Option.bind headers (\<lambda>hs. hs ''x-next-cache-tags'') of
             None \<Rightarrow> Inr []
           | Some (HStr s) \<Rightarrow> Inr (split_comma s)
           | Some _ \<Rightarrow> Inl TypeError)
      | _ \<Rightarrow> Inr [])"

text \<open>
  The write to the artifact store, by kind. The calls are awaited, so a rejection ends
  \<open>set\<close> with that error, except in the \<open>PAGE\<close> branch: there the promise of \<open>client.set\<close>
  is dropped, \<open>set\<close> goes on, and a rejection stays unhandled. The model performs the
  dropped write at once. A route artifact without headers raises a \<open>TypeError\<close> at
  \<open>headers["content-type"]\<close>.
\<close>

definition store_artifact ::
  "(string \<Rightarrow> bool) \<Rightarrow> world \<Rightarrow> string \<Rightarrow> IncrementalCacheValue option \<Rightarrow>
   (error + unit) \<times> world" where
  "store_artifact isBinaryContentType w key data =
     (case data of
        Some (ROUTE body status headers) \<Rightarrow>
          (case headers of
             None \<Rightarrow> (Inl TypeError, w)
           | Some hs \<Rightarrow>
               client_set_cache w key
                 (empty_cache_data
                    \<lparr>cd_type := Some ''route'',
                     cd_body :=
                       Some (if isBinaryContentType (String_of (hs ''content-type''))
                             then toString_base64 body
                             else toString_utf8 body),
                     cd_meta := Some \<lparr>meta_status = status, meta_headers = Some hs\<rparr>\<rparr>))
      | Some (PAGE html pageData status headers) \<Rightarrow>
          (case client_set_cache w key
                  (case pageData of
                     Some (JStr rsc) \<Rightarrow>
                       empty_cache_data
                         \<lparr>cd_type := Some ''app'', cd_html := html, cd_rsc := pageData\<rparr>
                   | _ \<Rightarrow>
                       empty_cache_data
                         \<lparr>cd_type := Some ''page'', cd_html := html, cd_json := pageData\<rparr>) of
             (Inl e, w1) \<Rightarrow> (Inr (), w1\<lparr>unhandled := unhandled w1 @ [e]\<rparr>)
           | (Inr u, w1) \<Rightarrow> (Inr (), w1))
      | Some (FETCH d r) \<Rightarrow> client_set_fetch w key d r
      | Some (REDIRECT props) \<Rightarrow>
          client_set_cache w key
            (empty_cache_data\<lparr>cd_type := Some ''redirect'', cd_props := props\<rparr>)
      | Some (IMAGE etag buffer extension isMiss isStale) \<Rightarrow> (Inr (), w)
      | None \<Rightarrow> client_delete w key)"

text \<open>\<open>set\<close> itself: the write, then the tags that are derived and not yet stored.\<close>

definition set_cache ::
  "(string \<Rightarrow> bool) \<Rightarrow> world \<Rightarrow> string \<Rightarrow> IncrementalCacheValue option \<Rightarrow>
   IncrementalCacheContext option \<Rightarrow> (error + unit) \<times> world" where
  "set_cache isBinaryContentType w key data ctx =
     (if disableIncrementalCache w then (Inr (), w)
      else
        (case store_artifact isBinaryContentType w key data of
           (Inl e, w1) \<Rightarrow> (Inl e, w1)
         | (Inr u, w1) \<Rightarrow>
             (case derivedTags data ctx of
                Inl e \<Rightarrow> (Inl e, w1)
              | Inr derived \<Rightarrow>
                  (case tag_getByPath w1 key of
                     (Inl e, w2) \<Rightarrow> (Inl e, w2)
                   | (Inr storedTags, w2) \<Rightarrow>
                       (let tagsToWrite = filter (\<lambda>tag. tag \<notin> set storedTags) derived
                        in if length tagsToWrite > 0
                           then tag_writeTags w2 (map (\<lambda>tag. (key, tag)) tagsToWrite)
                           else (Inr (), w2))))))"

subsection \<open>Concrete inputs\<close>

text \<open>
  Values to evaluate the model at: a classifier for which \<open>application/octet-stream\<close> is
  the only binary content type, and a world with nothing stored, no failing operation
  and a tag store that answers \<open>getLastModified\<close> with the time it is given.
\<close>

definition octet_stream :: "string \<Rightarrow> bool" where
  "octet_stream contentType = (contentType = ''application/octet-stream'')"

definition empty_world :: world where
  "empty_world =
     \<lparr>disableIncrementalCache = False,
      cache_objects = Map.empty,
      fetch_objects = Map.empty,
      clock = 1700000000000,
      tag_bindings = [],
      tag_lastModified = (\<lambda>key lm. case lm of None \<Rightarrow> 1700000000000 | Some t \<Rightarrow> t),
      failing = (\<lambda>op. False),
      calls = [],
      logs = [],
      unhandled = [],
      als_store = None,
      lastModified_by_request = Map.empty\<rparr>"


definition sample_page :: IncrementalCacheValue where
  "sample_page =
     PAGE (Some ''<html></html>'') (Some (JObj [(''posts'', JArr [])])) None
       (Some [''x-next-cache-tags'' \<mapsto> HStr ''home,blog''])"

definition sample_ctx :: IncrementalCacheContext where
  "sample_ctx = \<lparr>tags = Some [''posts'', ''home'']\<rparr>"

text \<open>
  A world that holds an intact redirect artifact and a fetch artifact under \<open>/blog\<close> while
  the tag store answers \<open>getLastModified\<close> with the stale sentinel.
\<close>

definition stale_world :: world where
  "stale_world =
     empty_world
       \<lparr>cache_objects :=
          [''/blog'' \<mapsto>
             (empty_cache_data\<lparr>cd_type := Some ''redirect'', cd_props := Some JNull\<rparr>,
              1700000000000)],
        fetch_objects :=
          [''/blog'' \<mapsto>
             ((\<lparr>fd_headers = Map.empty, fd_body = ''[]'',
                fd_url = ''https://api.example.com/posts'', fd_status = Some 200,
                fd_tags = None\<rparr>, 60), 1700000000000)],
        tag_lastModified := (\<lambda>key lm. - 1)\<rparr>"

text \<open>
  A world that holds a page artifact under \<open>/blog\<close>, last written at time \<open>t\<close>; no tag is
  stale, so the tag store answers \<open>getLastModified\<close> with \<open>t\<close>.
\<close>

definition world_written_at :: "int \<Rightarrow> world" where
  "world_written_at t =
     empty_world
       \<lparr>cache_objects :=
          [''/blog'' \<mapsto>
             (empty_cache_data
                \<lparr>cd_type := Some ''page'', cd_html := Some ''<html></html>'',
                 cd_json := Some JNull\<rparr>, t)]\<rparr>"


section \<open>Facts about the encodings\<close>

lemma unat_byte_lt: "unat (x :: byte) < 256"
  using unsigned_less [of x, where 'a = nat] by simp

lemma byte_of_char_of_byte [simp]: "byte_of_char (char_of_byte x) = x"
  using unat_byte_lt [of x] by (simp add: byte_of_char_def char_of_byte_def)





lemma b64_value_pad [simp]: "b64_value (CHR ''='') = None"
  by (simp add: b64_value_def)








section \<open>Facts about the cache operations\<close>

lemmas collaborator_defs =
  client_get_cache_def client_get_fetch_def client_set_cache_def client_set_fetch_def
  client_delete_def tag_getLastModified_def tag_getByPath_def tag_writeTags_def
  record_call_def log_error_def log_warn_def

text \<open>What the write to the artifact store leaves untouched.\<close>

lemma store_artifact_frame:
  "tag_bindings (snd (store_artifact isBin w key data)) = tag_bindings w \<and>
   failing (snd (store_artifact isBin w key data)) = failing w \<and>
   disableIncrementalCache (snd (store_artifact isBin w key data)) = disableIncrementalCache w \<and>
   clock (snd (store_artifact isBin w key data)) = clock w \<and>
   tag_lastModified (snd (store_artifact isBin w key data)) = tag_lastModified w \<and>
   logs (snd (store_artifact isBin w key data)) = logs w"
  by (simp add: store_artifact_def collaborator_defs Let_def
        split: option.splits IncrementalCacheValue.splits prod.splits sum.splits json.splits)

lemma bound_tags_store_artifact:
  "bound_tags (snd (store_artifact isBin w key data)) k = bound_tags w k"
  by (simp add: bound_tags_def store_artifact_frame)

text \<open>The second half of \<open>set\<close>, after a write that returned normally.\<close>

lemma set_cache_after_store:
  assumes "\<not> disableIncrementalCache w"
    and "store_artifact isBin w key data = (Inr (), w1)"
    and "derivedTags data ctx = Inr derived"
  shows "set_cache isBin w key data ctx =
           (if failing w TagGetByPath
            then (Inl (Thrown TagGetByPath), record_call (CallGetByPath key) w1)
            else if filter (\<lambda>tag. tag \<notin> set (bound_tags w key)) derived = []
            then (Inr (), record_call (CallGetByPath key) w1)
            else tag_writeTags (record_call (CallGetByPath key) w1)
                   (map (\<lambda>tag. (key, tag))
                      (filter (\<lambda>tag. tag \<notin> set (bound_tags w key)) derived)))"
proof -
  have f: "failing w1 = failing w" and b: "bound_tags w1 key = bound_tags w key"
    using store_artifact_frame [of isBin w key data] bound_tags_store_artifact [of isBin w key data key]
      assms(2) by simp_all
  show ?thesis
    using assms by (simp add: set_cache_def tag_getByPath_def Let_def f b)
qed




text \<open>What \<open>set\<close> as a whole leaves untouched; the artifact store is as the write left it.\<close>

lemma set_cache_frame:
  "logs (snd (set_cache isBin w key data ctx)) = logs w \<and>
   failing (snd (set_cache isBin w key data ctx)) = failing w \<and>
   tag_lastModified (snd (set_cache isBin w key data ctx)) = tag_lastModified w \<and>
   disableIncrementalCache (snd (set_cache isBin w key data ctx)) = disableIncrementalCache w \<and>
   (\<not> disableIncrementalCache w \<longrightarrow>
      cache_objects (snd (set_cache isBin w key data ctx)) =
      cache_objects (snd (store_artifact isBin w key data)))"
proof (cases "disableIncrementalCache w")
  case True
  then show ?thesis by (simp add: set_cache_def)
next
  case False
  obtain r w1 where s: "store_artifact isBin w key data = (r, w1)"
    by (cases "store_artifact isBin w key data")
  have fr: "logs w1 = logs w" "failing w1 = failing w" "tag_lastModified w1 = tag_lastModified w"
    "disableIncrementalCache w1 = disableIncrementalCache w"
    using store_artifact_frame [of isBin w key data] s by simp_all
  show ?thesis
  proof (cases r)
    case (Inl e)
    with False s fr show ?thesis by (simp add: set_cache_def)
  next
    case (Inr u)
    show ?thesis
    proof (cases "derivedTags data ctx")
      case (Inl e)
      with False s fr Inr show ?thesis by (simp add: set_cache_def)
    next
      case derived: (Inr ds)
      with False s fr Inr show ?thesis
        by (simp add: set_cache_def tag_getByPath_def tag_writeTags_def record_call_def Let_def)
    qed
  qed
qed

text \<open>Reading back what the artifact store holds for a key, when nothing fails.\<close>

lemma getIncrementalCache_value:
  assumes "cache_objects w key = Some (cd, t)"
    and "\<not> failing w ClientGet" and "\<not> failing w TagGetLastModified"
    and "tag_lastModified w key (Some t) \<noteq> - 1"
  shows "map_option chv_value (fst (getIncrementalCache isBin w key)) =
           (if cd_type cd = Some ''route''
            then Some (ROUTE
                   (case cd_body cd of
                      None \<Rightarrow> []
                    | Some body \<Rightarrow>
                        if isBin (String_of
                                    (Option.bind (Option.bind (cd_meta cd) meta_headers)
                                       (\<lambda>hs. hs ''content-type'')))
                        then from_base64 body else from_utf8 body)
                   (Option.bind (cd_meta cd) meta_status)
                   (Option.bind (cd_meta cd) meta_headers))
            else if cd_type cd = Some ''page'' \<or> cd_type cd = Some ''app''
            then Some (PAGE (cd_html cd)
                   (if cd_type cd = Some ''page'' then cd_json cd else cd_rsc cd)
                   (Option.bind (cd_meta cd) meta_status)
                   (Option.bind (cd_meta cd) meta_headers))
            else if cd_type cd = Some ''redirect''
            then Some (REDIRECT (cd_props cd))
            else None)"
  using assms
  by (simp add: getIncrementalCache_def client_get_cache_def tag_getLastModified_def
        record_call_def log_warn_def Let_def cong: option.case_cong)


lemma store_artifact_page:
  "\<not> failing w ClientSet \<Longrightarrow>
   cache_objects (snd (store_artifact isBin w key (Some (PAGE html pageData status headers)))) key =
     Some (case pageData of
             Some (JStr rsc) \<Rightarrow>
               empty_cache_data\<lparr>cd_type := Some ''app'', cd_html := html, cd_rsc := pageData\<rparr>
           | _ \<Rightarrow>
               empty_cache_data\<lparr>cd_type := Some ''page'', cd_html := html, cd_json := pageData\<rparr>,
           clock w)"
  by (simp add: store_artifact_def client_set_cache_def record_call_def Let_def)


text \<open>
  \<open>get\<close> after \<open>set\<close>, in the incremental variant, when neither the write nor the read
  fails and the tag store does not answer with the stale sentinel.
\<close>

lemma get_after_set:
  assumes "\<not> disableIncrementalCache w"
    and "\<not> failing w ClientGet" and "\<not> failing w TagGetLastModified"
    and "\<not> isFetchCache options"
    and "cache_objects (snd (store_artifact isBin w key data)) key = Some (cd, t)"
    and "tag_lastModified w key (Some t) \<noteq> - 1"
  shows "map_option chv_value
           (fst (get isBin (snd (set_cache isBin w key data ctx)) key options)) =
         map_option chv_value
           (fst (getIncrementalCache isBin
                   (w\<lparr>cache_objects := cache_objects (snd (store_artifact isBin w key data))\<rparr>)
                   key))"
proof -
  let ?w' = "snd (set_cache isBin w key data ctx)"
  let ?w'' = "w\<lparr>cache_objects := cache_objects (snd (store_artifact isBin w key data))\<rparr>"
  have fr: "failing ?w' = failing w" "tag_lastModified ?w' = tag_lastModified w"
    "\<not> disableIncrementalCache ?w'"
    "cache_objects ?w' = cache_objects (snd (store_artifact isBin w key data))"
    using set_cache_frame [of isBin w key data ctx] assms(1) by simp_all
  have g: "get isBin ?w' key options = getIncrementalCache isBin ?w' key"
    using fr(3) assms(4) by (simp add: get_def)
  have a: "map_option chv_value (fst (getIncrementalCache isBin ?w' key)) =
           map_option chv_value (fst (getIncrementalCache isBin ?w'' key))"
    using assms(2,3,5,6) fr
    by (simp add: getIncrementalCache_value [where cd = cd and t = t])
  show ?thesis
    by (simp only: g a)
qed



text \<open>
  A page comes back with its html and page data; \<open>set\<close> stores no \<open>meta\<close> for a page, so
  \<open>get\<close> finds neither status nor headers.
\<close>

lemma set_then_get_page:
  assumes "\<not> disableIncrementalCache w"
    and "\<not> failing w ClientSet" and "\<not> failing w ClientGet"
    and "\<not> failing w TagGetLastModified"
    and "tag_lastModified w key (Some (clock w)) \<noteq> - 1"
    and "\<not> isFetchCache options"
  shows "map_option chv_value
           (fst (get isBin
                   (snd (set_cache isBin w key (Some (PAGE html pageData status headers)) ctx))
                   key options)) =
         Some (PAGE html pageData None None)"
proof -
  note s = store_artifact_page [OF assms(2), of isBin key html pageData status headers]
  have c: "cache_objects
             (w\<lparr>cache_objects :=
                  cache_objects (snd (store_artifact isBin w key
                                        (Some (PAGE html pageData status headers))))\<rparr>) key =
           Some (case pageData of
                   Some (JStr rsc) \<Rightarrow>
                     empty_cache_data
                       \<lparr>cd_type := Some ''app'', cd_html := html, cd_rsc := pageData\<rparr>
                 | _ \<Rightarrow>
                     empty_cache_data
                       \<lparr>cd_type := Some ''page'', cd_html := html, cd_json := pageData\<rparr>,
                 clock w)"
    using s by simp
  show ?thesis
    unfolding get_after_set [OF assms(1,3,4,6) s assms(5)]
    using assms(3,4,5)
    by (simp add: getIncrementalCache_value [OF c] empty_cache_data_def
          split: option.splits json.splits)
qed

section \<open>Header policy\<close>

text \<open>
  C3: for a path listed as an HTML page, a response that carries no cache-control header
  is to be forced to the baseline \<open>public, max-age=0, s-maxage=31536000, must-revalidate\<close>.
  The code does not do so: the HTML page \<open>/index\<close> answered without any cache-control
  header leaves \<open>fixCacheHeaderForHtmlPages\<close> without one.
\<close>

theorem fixCacheHeaderForHtmlPages_missing_header:
  "fixCacheHeaderForHtmlPages [''/index''] ''/index'' Map.empty CACHE_CONTROL = None"
  by (simp add: fixCacheHeaderForHtmlPages_def)

text \<open>
  What the function does for a path listed as an HTML page: the guard
  \<open>headers["cache-control"]\<close> asks for the header to be present, so a response that carries
  a cache-control header (a truthy value) gets the baseline, and any other response is left
  as it is.
\<close>

lemma fixCacheHeaderForHtmlPages_baseline:
  "rawPath \<in> set HtmlPages \<Longrightarrow>
   fixCacheHeaderForHtmlPages HtmlPages rawPath hs =
     (if truthy (hs CACHE_CONTROL)
      then hs(CACHE_CONTROL \<mapsto> HStr ''public, max-age=0, s-maxage=31536000, must-revalidate'')
      else hs)"
  by (simp add: fixCacheHeaderForHtmlPages_def)

text \<open>
  C6: when \<open>x-nextjs-cache\<close> is \<open>STALE\<close>, \<open>fixISRHeaders\<close> sets cache-control to exactly
  \<open>s-maxage=2, stale-while-revalidate=2592000\<close>, whatever it was before, and changes
  nothing else; the headers \<open>revalidateIfRequired\<close> leaves behind carry the same value.
\<close>

theorem fixISRHeaders_stale:
  "hs NEXT_CACHE = Some (HStr ''STALE'') \<Longrightarrow>
   fixISRHeaders now (hs, lm) =
     (hs(CACHE_CONTROL \<mapsto> HStr ''s-maxage=2, stale-while-revalidate=2592000''), lm) \<and>
   hdrs (revalidateIfRequired BuildId maxConcurrency now host rawPath req
           \<lparr>hdrs = hs, g_lastModified = lm, queue_calls = q\<rparr>) CACHE_CONTROL =
     Some (HStr ''s-maxage=2, stale-while-revalidate=2592000'')"
  by (simp add: fixISRHeaders_def revalidateIfRequired_def Let_def NEXT_CACHE_def CACHE_CONTROL_def)

theorem fixISRHeaders_stale_witness:
  "[NEXT_CACHE \<mapsto> HStr ''STALE'', CACHE_CONTROL \<mapsto> HStr ''max-age=600'']
      NEXT_CACHE = Some (HStr ''STALE'') \<and>
   fixISRHeaders 1700000100000
      ([NEXT_CACHE \<mapsto> HStr ''STALE'', CACHE_CONTROL \<mapsto> HStr ''max-age=600''], GNumber 0) =
     ([NEXT_CACHE \<mapsto> HStr ''STALE'', CACHE_CONTROL \<mapsto> HStr ''max-age=600'']
        (CACHE_CONTROL \<mapsto> HStr ''s-maxage=2, stale-while-revalidate=2592000''), GNumber 0)"
  using fixISRHeaders_stale
          [of "[NEXT_CACHE \<mapsto> HStr ''STALE'', CACHE_CONTROL \<mapsto> HStr ''max-age=600'']"
              1700000100000 "GNumber 0"]
  by (simp add: NEXT_CACHE_def CACHE_CONTROL_def)

text \<open>
  C7: with cache state \<open>HIT\<close> and a recorded last-modified time, a cache-control carrying an
  \<open>s-maxage\<close> other than 31536000 is to be rewritten to the remaining time to live:
  last-modified 100 seconds ago with \<open>s-maxage=500\<close> is to give
  \<open>s-maxage=400, stale-while-revalidate=2592000\<close>, and the recorded time is to be cleared.
  The code does not do so. \<open>get\<close> finds the page written at 1700000000000 and records that
  time in the Record under the request id (the empty string outside a request context);
  \<open>fixISRHeaders\<close>, run 100 seconds later on the \<open>HIT\<close> response with what the global
  then holds, leaves \<open>s-maxage=500, stale-while-revalidate=60\<close> in place and clears nothing.
\<close>

theorem fixISRHeaders_hit_after_get:
  "map_option chv_lastModified
     (fst (get octet_stream (world_written_at 1700000000000) ''/blog'' None)) =
     Some 1700000000000 \<and>
   lastModified_by_request
     (snd (get octet_stream (world_written_at 1700000000000) ''/blog'' None)) [] =
     Some 1700000000000 \<and>
   fixISRHeaders 1700000100000
     ([NEXT_CACHE \<mapsto> HStr ''HIT'',
       CACHE_CONTROL \<mapsto> HStr ''s-maxage=500, stale-while-revalidate=60''],
      GRecord (lastModified_by_request
                 (snd (get octet_stream (world_written_at 1700000000000) ''/blog'' None)))) =
     ([NEXT_CACHE \<mapsto> HStr ''HIT'',
       CACHE_CONTROL \<mapsto> HStr ''s-maxage=500, stale-while-revalidate=60''],
      GRecord (lastModified_by_request
                 (snd (get octet_stream (world_written_at 1700000000000) ''/blog'' None))))"
proof -
  let ?r = "get octet_stream (world_written_at 1700000000000) ''/blog'' None"
  let ?hs = "[NEXT_CACHE \<mapsto> HStr ''HIT'',
              CACHE_CONTROL \<mapsto> HStr ''s-maxage=500, stale-while-revalidate=60'']"
  have a: "map_option chv_lastModified (fst ?r) = Some 1700000000000"
    by (simp add: get_def getIncrementalCache_def collaborator_defs world_written_at_def
          empty_world_def empty_cache_data_def Let_def)
  have b: "lastModified_by_request (snd ?r) [] = Some 1700000000000"
    by (simp add: get_def getIncrementalCache_def collaborator_defs world_written_at_def
          empty_world_def empty_cache_data_def Let_def)
  have c: "fixISRHeaders 1700000100000 (?hs, GRecord (lastModified_by_request (snd ?r))) =
             (?hs, GRecord (lastModified_by_request (snd ?r)))"
    by (simp add: fixISRHeaders_def NEXT_CACHE_def CACHE_CONTROL_def)
  show ?thesis
    by (intro conjI) (rule a b c)+
qed

text \<open>
  The cause is the shape of the global, not the time recorded: whatever Record the global
  holds, \<open>fixISRHeaders\<close> leaves a \<open>HIT\<close> response and the global as they are.
\<close>

lemma fixISRHeaders_hit_record:
  "hs NEXT_CACHE = Some (HStr ''HIT'') \<Longrightarrow> fixISRHeaders now (hs, GRecord r) = (hs, GRecord r)"
  by (simp add: fixISRHeaders_def)

text \<open>
  When the global holds a number above 0, as \<open>util.ts\<close> declares it, the function does
  rewrite the header to the remaining time to live and resets the global to 0, for an
  \<open>s-maxage\<close> that is neither 0 (which the guard \<open>sMaxAge && ...\<close> leaves alone) nor 31536000.
  The bounds keep every number in the range where the runtime computes exactly.
\<close>

lemma fixISRHeaders_hit_number:
  "hs NEXT_CACHE = Some (HStr ''HIT'') \<Longrightarrow> 0 < lm \<Longrightarrow> lm < 4503599627370496 \<Longrightarrow>
   0 \<le> now \<Longrightarrow> now < 4503599627370496 \<Longrightarrow>
   hs CACHE_CONTROL = Some (HStr cacheControl) \<Longrightarrow>
   match_sMaxAge cacheControl = Some digits \<Longrightarrow>
   parseInt digits \<noteq> 0 \<Longrightarrow> parseInt digits \<noteq> 31536000 \<Longrightarrow>
   parseInt digits < 4503599627370496 \<Longrightarrow>
   fixISRHeaders now (hs, GNumber lm) =
     (hs(CACHE_CONTROL \<mapsto>
           HStr (''s-maxage='' @
                 string_of_int (max (parseInt digits - age_seconds now lm) 1) @
                 '', stale-while-revalidate=2592000'')),
      GNumber 0)"
  by (simp add: fixISRHeaders_def)

lemma fixISRHeaders_hit_number_zero:
  "fixISRHeaders 1700000100000
     ([NEXT_CACHE \<mapsto> HStr ''HIT'', CACHE_CONTROL \<mapsto> HStr ''s-maxage=0''],
      GNumber 1700000000000) =
     ([NEXT_CACHE \<mapsto> HStr ''HIT'', CACHE_CONTROL \<mapsto> HStr ''s-maxage=0''], GNumber 0)"
  by (simp add: fixISRHeaders_def NEXT_CACHE_def CACHE_CONTROL_def is_digit_def parseInt_def
        digit_val_def)

section \<open>Revalidation dispatch\<close>

text \<open>
  C8: the dedup id sent with a revalidation job is to be a hash of the raw path and the
  last-known-modified time, so that a change of either changes the id. The code does
  not do so. \<open>get\<close> records 1700000000000 for the page written at that time and
  1700000300000 for the page written five minutes later; \<open>revalidateIfRequired\<close>, run on
  the \<open>STALE\<close> response with what the global then holds, sends the same id both times,
  the digest of \<open>/blog-\<close>.
\<close>

theorem dedup_id_after_get:
  "lastModified_by_request
     (snd (get octet_stream (world_written_at 1700000000000) ''/blog'' None)) [] =
     Some 1700000000000 \<and>
   lastModified_by_request
     (snd (get octet_stream (world_written_at 1700000300000) ''/blog'' None)) [] =
     Some 1700000300000 \<and>
   map MessageDeduplicationId
     (queue_calls (revalidateIfRequired ''abc123'' 10 1700000400000 ''example.com'' ''/blog'' None
        \<lparr>hdrs = [NEXT_CACHE \<mapsto> HStr ''STALE''],
         g_lastModified =
           GRecord (lastModified_by_request
                      (snd (get octet_stream (world_written_at 1700000000000) ''/blog'' None))),
         queue_calls = []\<rparr>)) = [hash ''/blog-''] \<and>
   map MessageDeduplicationId
     (queue_calls (revalidateIfRequired ''abc123'' 10 1700000400000 ''example.com'' ''/blog'' None
        \<lparr>hdrs = [NEXT_CACHE \<mapsto> HStr ''STALE''],
         g_lastModified =
           GRecord (lastModified_by_request
                      (snd (get octet_stream (world_written_at 1700000300000) ''/blog'' None))),
         queue_calls = []\<rparr>)) = [hash ''/blog-'']"
proof -
  let ?r1 = "get octet_stream (world_written_at 1700000000000) ''/blog'' None"
  let ?r2 = "get octet_stream (world_written_at 1700000300000) ''/blog'' None"
  have a: "lastModified_by_request (snd ?r1) [] = Some 1700000000000"
    by (simp add: get_def getIncrementalCache_def collaborator_defs world_written_at_def
          empty_world_def empty_cache_data_def Let_def)
  have b: "lastModified_by_request (snd ?r2) [] = Some 1700000300000"
    by (simp add: get_def getIncrementalCache_def collaborator_defs world_written_at_def
          empty_world_def empty_cache_data_def Let_def)
  have c: "map MessageDeduplicationId
             (queue_calls (revalidateIfRequired ''abc123'' 10 1700000400000 ''example.com''
                ''/blog'' None
                \<lparr>hdrs = [NEXT_CACHE \<mapsto> HStr ''STALE''], g_lastModified = GRecord r,
                 queue_calls = []\<rparr>)) = [hash ''/blog-'']" for r
    by (simp add: revalidateIfRequired_def fixISRHeaders_def Let_def NEXT_CACHE_def
          CACHE_CONTROL_def dedup_string_def)
  show ?thesis
    by (intro conjI) (rule a b c)+
qed

text \<open>
  The cause is the one behind the unchanged \<open>HIT\<close> response: a Record in the global is not
  above 0, so the string that is hashed ends after the dash, whatever was recorded.
  With a number above 0 in the global the string carries the number.
\<close>

lemma dedup_string_record: "dedup_string rawPath (GRecord r) = rawPath @ ''-''"
  by (simp add: dedup_string_def)

lemma dedup_string_number:
  "0 < lm \<Longrightarrow> lm < 9007199254740992 \<Longrightarrow>
   dedup_string rawPath (GNumber lm) = rawPath @ ''-'' @ string_of_int lm"
  by (simp add: dedup_string_def)

text \<open>
  C9: when the response is \<open>STALE\<close> and the request was rewritten (\<open>_nextDidRewrite\<close>), the
  url submitted to the queue is \<open>/_next/data/\<close>, the build id, the rewritten url and
  \<open>.json\<close> if the raw path starts with \<open>/_next/data/\<close>, and the rewritten url as it is
  otherwise.
\<close>

theorem revalidateUrl_of_rewritten_request:
  "hdrs st NEXT_CACHE = Some (HStr ''STALE'') \<Longrightarrow>
   NextInternalRequestMeta r = Some m \<Longrightarrow> nextDidRewrite m = Some True \<Longrightarrow>
   map MessageBody_url
     (queue_calls (revalidateIfRequired BuildId maxConcurrency now host rawPath (Some r) st)) =
   map MessageBody_url (queue_calls st) @
     [if startsWith rawPath ''/_next/data/''
      then Some (''/_next/data/'' @ BuildId @ template (nextRewroteUrl m) @ ''.json'')
      else nextRewroteUrl m]"
  by (simp add: revalidateIfRequired_def fixISRHeaders_def revalidateUrl_def Let_def
        NEXT_CACHE_def CACHE_CONTROL_def)

theorem revalidateUrl_of_rewritten_request_witness:
  "hdrs \<lparr>hdrs = [NEXT_CACHE \<mapsto> HStr ''STALE''], g_lastModified = GNumber 0, queue_calls = []\<rparr>
     NEXT_CACHE = Some (HStr ''STALE'') \<and>
   NextInternalRequestMeta
     \<lparr>NextInternalRequestMeta =
        Some \<lparr>nextDidRewrite = Some True, nextRewroteUrl = Some ''/blog/first''\<rparr>\<rparr> =
     Some \<lparr>nextDidRewrite = Some True, nextRewroteUrl = Some ''/blog/first''\<rparr> \<and>
   map MessageBody_url
     (queue_calls (revalidateIfRequired ''abc123'' 10 1700000100000 ''example.com''
        ''/_next/data/abc123/posts/first.json''
        (Some \<lparr>NextInternalRequestMeta =
                 Some \<lparr>nextDidRewrite = Some True, nextRewroteUrl = Some ''/blog/first''\<rparr>\<rparr>)
        \<lparr>hdrs = [NEXT_CACHE \<mapsto> HStr ''STALE''], g_lastModified = GNumber 0, queue_calls = []\<rparr>)) =
     [Some ''/_next/data/abc123/blog/first.json''] \<and>
   map MessageBody_url
     (queue_calls (revalidateIfRequired ''abc123'' 10 1700000100000 ''example.com''
        ''/posts/first''
        (Some \<lparr>NextInternalRequestMeta =
                 Some \<lparr>nextDidRewrite = Some True, nextRewroteUrl = Some ''/blog/first''\<rparr>\<rparr>)
        \<lparr>hdrs = [NEXT_CACHE \<mapsto> HStr ''STALE''], g_lastModified = GNumber 0, queue_calls = []\<rparr>)) =
     [Some ''/blog/first'']"
proof -
  let ?st = "\<lparr>hdrs = [NEXT_CACHE \<mapsto> HStr ''STALE''], g_lastModified = GNumber 0, queue_calls = []\<rparr>"
  let ?m = "\<lparr>nextDidRewrite = Some True, nextRewroteUrl = Some ''/blog/first''\<rparr>"
  let ?r = "\<lparr>NextInternalRequestMeta = Some ?m\<rparr>"
  have h1: "hdrs ?st NEXT_CACHE = Some (HStr ''STALE'')" by simp
  have h2: "NextInternalRequestMeta ?r = Some ?m" by simp
  have h3: "nextDidRewrite ?m = Some True" by simp
  have a: "map MessageBody_url
             (queue_calls (revalidateIfRequired ''abc123'' 10 1700000100000 ''example.com''
                ''/_next/data/abc123/posts/first.json'' (Some ?r) ?st)) =
           [Some ''/_next/data/abc123/blog/first.json'']"
    using revalidateUrl_of_rewritten_request [OF h1 h2 h3]
    by (simp add: startsWith_def template_def)
  have b: "map MessageBody_url
             (queue_calls (revalidateIfRequired ''abc123'' 10 1700000100000 ''example.com''
                ''/posts/first'' (Some ?r) ?st)) =
           [Some ''/blog/first'']"
    using revalidateUrl_of_rewritten_request [OF h1 h2 h3]
    by (simp add: startsWith_def template_def)
  show ?thesis
    by (intro conjI) (rule h1 h2 a b)+
qed

section \<open>Tag bindings\<close>




text \<open>
  C10: with the cache enabled, \<open>set\<close> with an artifact of kind \<open>IMAGE\<close> calls the tag store
  once, for the tags bound to the key, and calls nothing else: no write and no delete
  reaches the artifact store, whose contents stay as they were, and no tag is written.
  The tags derived from an image are the empty list, as for a route, a redirect and a
  null artifact: only \<open>FETCH\<close> and \<open>PAGE\<close> artifacts derive tags.
\<close>

theorem set_image_touches_no_artifact:
  "\<not> disableIncrementalCache w \<Longrightarrow>
   calls (snd (set_cache isBin w key (Some (IMAGE etag buffer extension isMiss isStale)) ctx)) =
     calls w @ [CallGetByPath key] \<and>
   cache_objects (snd (set_cache isBin w key (Some (IMAGE etag buffer extension isMiss isStale)) ctx)) =
     cache_objects w \<and>
   fetch_objects (snd (set_cache isBin w key (Some (IMAGE etag buffer extension isMiss isStale)) ctx)) =
     fetch_objects w \<and>
   tag_bindings (snd (set_cache isBin w key (Some (IMAGE etag buffer extension isMiss isStale)) ctx)) =
     tag_bindings w \<and>
   derivedTags (Some (IMAGE etag buffer extension isMiss isStale)) ctx = Inr [] \<and>
   derivedTags (Some (ROUTE body status headers)) ctx = Inr [] \<and>
   derivedTags (Some (REDIRECT props)) ctx = Inr [] \<and>
   derivedTags None ctx = Inr []"
  by (simp add: set_cache_def store_artifact_def derivedTags_def tag_getByPath_def
        record_call_def Let_def)

theorem set_image_touches_no_artifact_witness:
  "\<not> disableIncrementalCache stale_world \<and>
   calls (snd (set_cache octet_stream stale_world ''/blog''
                 (Some (IMAGE ''etag-1'' [0x89, 0x50, 0x4E, 0x47] ''png'' None None))
                 (Some sample_ctx))) = [CallGetByPath ''/blog''] \<and>
   cache_objects (snd (set_cache octet_stream stale_world ''/blog''
                 (Some (IMAGE ''etag-1'' [0x89, 0x50, 0x4E, 0x47] ''png'' None None))
                 (Some sample_ctx))) = cache_objects stale_world \<and>
   derivedTags (Some (IMAGE ''etag-1'' [0x89, 0x50, 0x4E, 0x47] ''png'' None None))
     (Some sample_ctx) = Inr []"
proof -
  have e: "\<not> disableIncrementalCache stale_world"
    by (simp add: stale_world_def empty_world_def)
  have c: "calls stale_world = []"
    by (simp add: stale_world_def empty_world_def)
  show ?thesis
    using set_image_touches_no_artifact
            [OF e, of octet_stream "''/blog''" "''etag-1''" "[0x89, 0x50, 0x4E, 0x47]" "''png''"
               None None "Some sample_ctx"]
    by (simp add: e c)
qed

section \<open>Reading the cache\<close>

text \<open>
  C4: when the tag store answers \<open>getLastModified\<close> for the key with the stale sentinel
  \<open>-1\<close>, \<open>get\<close> returns null, in the fetch variant and in the incremental variant,
  whatever the artifact store holds for the key.
\<close>

theorem get_stale_sentinel_is_miss:
  assumes "tag_lastModified w key
             (if isFetchCache options then map_option snd (fetch_objects w key)
              else map_option snd (cache_objects w key)) = - 1"
  shows "fst (get isBin w key options) = None"
proof (cases "disableIncrementalCache w")
  case True
  then show ?thesis by (simp add: get_def)
next
  case False
  show ?thesis
  proof (cases "isFetchCache options")
    case True
    with assms have "tag_lastModified w key (map_option snd (fetch_objects w key)) = - 1"
      by simp
    then have "fst (getFetchCache w key) = None"
      by (simp add: getFetchCache_def client_get_fetch_def tag_getLastModified_def
            record_call_def log_error_def Let_def)
    with True False show ?thesis by (simp add: get_def)
  next
    case nf: False
    with assms have "tag_lastModified w key (map_option snd (cache_objects w key)) = - 1"
      by simp
    then have "fst (getIncrementalCache isBin w key) = None"
      by (simp add: getIncrementalCache_def client_get_cache_def tag_getLastModified_def
            record_call_def log_error_def Let_def)
    with nf False show ?thesis by (simp add: get_def)
  qed
qed

theorem get_stale_sentinel_is_miss_witness:
  "cache_objects stale_world ''/blog'' =
     Some (empty_cache_data\<lparr>cd_type := Some ''redirect'', cd_props := Some JNull\<rparr>,
           1700000000000) \<and>
   tag_lastModified stale_world ''/blog'' (Some 1700000000000) = - 1 \<and>
   fst (get octet_stream stale_world ''/blog'' None) = None \<and>
   fst (get octet_stream stale_world ''/blog'' (Some (OptObject None (Some Fetch)))) = None"
proof -
  have c: "cache_objects stale_world ''/blog'' =
     Some (empty_cache_data\<lparr>cd_type := Some ''redirect'', cd_props := Some JNull\<rparr>,
           1700000000000)"
    by (simp add: stale_world_def)
  have t: "tag_lastModified stale_world k lm = - 1" for k lm
    by (simp add: stale_world_def)
  have a: "fst (get octet_stream stale_world ''/blog'' None) = None"
    by (rule get_stale_sentinel_is_miss) (simp only: t)
  have b: "fst (get octet_stream stale_world ''/blog'' (Some (OptObject None (Some Fetch)))) = None"
    by (rule get_stale_sentinel_is_miss) (simp only: t)
  show ?thesis
    by (intro conjI) (rule c t a b)+
qed

section \<open>Writing the cache\<close>




text \<open>
  The status and the headers of a page do not come back either: the \<open>PAGE\<close> branch of
  \<open>set\<close> stores no \<open>meta\<close>, although \<open>get\<close> reads the status and the headers of a page
  from it.
\<close>

lemma set_then_get_page_loses_status:
  "map_option chv_value
     (fst (get octet_stream
             (snd (set_cache octet_stream empty_world ''/missing''
                     (Some (PAGE (Some ''<html></html>'') (Some (JStr ''0:[]'')) (Some 404) None))
                     None))
             ''/missing'' None)) =
   Some (PAGE (Some ''<html></html>'') (Some (JStr ''0:[]'')) None None)"
proof -
  have e: "\<not> disableIncrementalCache empty_world"
    and f1: "\<not> failing empty_world ClientSet" and f2: "\<not> failing empty_world ClientGet"
    and f3: "\<not> failing empty_world TagGetLastModified"
    and t: "tag_lastModified empty_world ''/missing'' (Some (clock empty_world)) \<noteq> - 1"
    by (simp_all add: empty_world_def)
  have o: "\<not> isFetchCache None"
    by simp
  show ?thesis
    by (rule set_then_get_page [OF e f1 f2 f3 t o])
qed

text \<open>
  C2, as the code has it: \<open>set\<close> has no handler for failures and logs nothing. With the
  cache enabled,
  \<^item> a failure of the artifact store in the write of a route, a fetch or a redirect
    artifact, or in the delete for a null artifact, ends \<open>set\<close> with that error;
  \<^item> after a write that returned normally, a failure of the tag store in \<open>getByPath\<close>,
    or in \<open>writeTags\<close> when there are tags to write, ends \<open>set\<close> with that error;
  \<^item> when no collaborator fails, \<open>set\<close> returns normally unless a \<open>TypeError\<close> arises.
\<close>

theorem set_failures_propagate:
  assumes "\<not> disableIncrementalCache w"
  shows "logs (snd (set_cache isBin w key data ctx)) = logs w \<and>
         (failing w ClientSet \<longrightarrow>
            fst (set_cache isBin w key (Some (ROUTE body status (Some hs))) ctx) =
              Inl (Thrown ClientSet) \<and>
            fst (set_cache isBin w key (Some (FETCH d r)) ctx) = Inl (Thrown ClientSet) \<and>
            fst (set_cache isBin w key (Some (REDIRECT props)) ctx) = Inl (Thrown ClientSet)) \<and>
         (failing w ClientDelete \<longrightarrow>
            fst (set_cache isBin w key None ctx) = Inl (Thrown ClientDelete)) \<and>
         (fst (store_artifact isBin w key data) = Inr () \<and> derivedTags data ctx = Inr derived \<and>
          failing w TagGetByPath \<longrightarrow>
            fst (set_cache isBin w key data ctx) = Inl (Thrown TagGetByPath)) \<and>
         (fst (store_artifact isBin w key data) = Inr () \<and> derivedTags data ctx = Inr derived \<and>
          \<not> failing w TagGetByPath \<and>
          filter (\<lambda>tag. tag \<notin> set (bound_tags w key)) derived \<noteq> [] \<and>
          failing w TagWriteTags \<longrightarrow>
            fst (set_cache isBin w key data ctx) = Inl (Thrown TagWriteTags)) \<and>
         ((\<forall>operation. \<not> failing w operation) \<longrightarrow>
            fst (set_cache isBin w key data ctx) = Inr () \<or>
            fst (set_cache isBin w key data ctx) = Inl TypeError)"
proof -
  have l: "logs (snd (set_cache isBin w key data ctx)) = logs w"
    using set_cache_frame [of isBin w key data ctx] by simp
  have s: "failing w ClientSet \<longrightarrow>
            fst (set_cache isBin w key (Some (ROUTE body status (Some hs))) ctx) =
              Inl (Thrown ClientSet) \<and>
            fst (set_cache isBin w key (Some (FETCH d r)) ctx) = Inl (Thrown ClientSet) \<and>
            fst (set_cache isBin w key (Some (REDIRECT props)) ctx) = Inl (Thrown ClientSet)"
    using assms
    by (simp add: set_cache_def store_artifact_def client_set_cache_def client_set_fetch_def
          Let_def)
  have d: "failing w ClientDelete \<longrightarrow>
            fst (set_cache isBin w key None ctx) = Inl (Thrown ClientDelete)"
    using assms by (simp add: set_cache_def store_artifact_def client_delete_def Let_def)
  have after: "set_cache isBin w key data ctx =
           (if failing w TagGetByPath
            then (Inl (Thrown TagGetByPath),
                  record_call (CallGetByPath key) (snd (store_artifact isBin w key data)))
            else if filter (\<lambda>tag. tag \<notin> set (bound_tags w key)) derived = []
            then (Inr (), record_call (CallGetByPath key) (snd (store_artifact isBin w key data)))
            else tag_writeTags
                   (record_call (CallGetByPath key) (snd (store_artifact isBin w key data)))
                   (map (\<lambda>tag. (key, tag))
                      (filter (\<lambda>tag. tag \<notin> set (bound_tags w key)) derived)))"
    if "fst (store_artifact isBin w key data) = Inr ()" and "derivedTags data ctx = Inr derived"
    for derived
    using set_cache_after_store [OF assms _ that(2), of isBin key "snd (store_artifact isBin w key data)"]
      that(1) by (simp add: prod_eq_iff)
  have fw: "failing (record_call (CallGetByPath key) (snd (store_artifact isBin w key data))) =
            failing w"
    using store_artifact_frame [of isBin w key data] by (simp add: record_call_def)
  have g: "fst (store_artifact isBin w key data) = Inr () \<and> derivedTags data ctx = Inr derived \<and>
          failing w TagGetByPath \<longrightarrow>
            fst (set_cache isBin w key data ctx) = Inl (Thrown TagGetByPath)"
    using after [of derived] by simp
  have t: "fst (store_artifact isBin w key data) = Inr () \<and> derivedTags data ctx = Inr derived \<and>
          \<not> failing w TagGetByPath \<and>
          filter (\<lambda>tag. tag \<notin> set (bound_tags w key)) derived \<noteq> [] \<and>
          failing w TagWriteTags \<longrightarrow>
            fst (set_cache isBin w key data ctx) = Inl (Thrown TagWriteTags)"
    using after [of derived] fw by (simp add: tag_writeTags_def Let_def)
  have n: "(\<forall>operation. \<not> failing w operation) \<longrightarrow>
            fst (set_cache isBin w key data ctx) = Inr () \<or>
            fst (set_cache isBin w key data ctx) = Inl TypeError"
  proof
    assume nf: "\<forall>operation. \<not> failing w operation"
    have st: "fst (store_artifact isBin w key data) = Inr () \<or>
              fst (store_artifact isBin w key data) = Inl TypeError"
      using nf
      by (simp add: store_artifact_def client_set_cache_def client_set_fetch_def
            client_delete_def Let_def
            split: option.splits IncrementalCacheValue.splits prod.splits sum.splits json.splits)
    show "fst (set_cache isBin w key data ctx) = Inr () \<or>
          fst (set_cache isBin w key data ctx) = Inl TypeError"
    proof (cases "fst (store_artifact isBin w key data) = Inr ()")
      case True
      show ?thesis
      proof (cases "derivedTags data ctx")
        case (Inl e)
        then have "e = TypeError"
          by (simp add: derivedTags_def
                split: option.splits IncrementalCacheValue.splits hval.splits)
        with Inl True assms show ?thesis
          by (cases "store_artifact isBin w key data") (simp add: set_cache_def)
      next
        case (Inr ds)
        show ?thesis
          using after [OF True Inr] fw nf by (simp add: tag_writeTags_def Let_def)
      qed
    next
      case False
      with st have "fst (store_artifact isBin w key data) = Inl TypeError" by simp
      with assms show ?thesis
        by (cases "store_artifact isBin w key data") (simp add: set_cache_def)
    qed
  qed
  show ?thesis
    using l s d g t n by (intro conjI)
qed

theorem set_failures_propagate_witness:
  "\<not> disableIncrementalCache (empty_world\<lparr>failing := (\<lambda>operation. operation = TagGetByPath)\<rparr>) \<and>
   failing (empty_world\<lparr>failing := (\<lambda>operation. operation = TagGetByPath)\<rparr>) TagGetByPath \<and>
   fst (store_artifact octet_stream
          (empty_world\<lparr>failing := (\<lambda>operation. operation = TagGetByPath)\<rparr>)
          ''/blog'' (Some sample_page)) = Inr () \<and>
   derivedTags (Some sample_page) None = Inr [''home'', ''blog''] \<and>
   fst (set_cache octet_stream
          (empty_world\<lparr>failing := (\<lambda>operation. operation = TagGetByPath)\<rparr>)
          ''/blog'' (Some sample_page) None) = Inl (Thrown TagGetByPath) \<and>
   logs (snd (set_cache octet_stream
          (empty_world\<lparr>failing := (\<lambda>operation. operation = TagGetByPath)\<rparr>)
          ''/blog'' (Some sample_page) None)) = []"
proof -
  let ?w = "empty_world\<lparr>failing := (\<lambda>operation. operation = TagGetByPath)\<rparr>"
  have e: "\<not> disableIncrementalCache ?w"
    by (simp add: empty_world_def)
  have f: "failing ?w TagGetByPath"
    by simp
  have s: "fst (store_artifact octet_stream ?w ''/blog'' (Some sample_page)) = Inr ()"
    by (simp add: store_artifact_def sample_page_def client_set_cache_def Let_def
          split: prod.splits)
  have d: "derivedTags (Some sample_page) None = Inr [''home'', ''blog'']"
    by (simp add: derivedTags_def sample_page_def)
  have l0: "logs ?w = []"
    by (simp add: empty_world_def)
  note th = set_failures_propagate
              [OF e, of octet_stream "''/blog''" "Some sample_page" None _ _ _ _ _ _
                 "[''home'', ''blog'']"]
  have r: "fst (set_cache octet_stream ?w ''/blog'' (Some sample_page) None) =
           Inl (Thrown TagGetByPath)"
    using th s d f by blast
  have l: "logs (snd (set_cache octet_stream ?w ''/blog'' (Some sample_page) None)) = []"
    using th l0 by simp
  show ?thesis
    by (intro conjI) (rule e f s d r l)+
qed

text \<open>
  C2 as stated fails: when the artifact store rejects the write of a redirect, \<open>set\<close>
  ends with that error, and nothing has been logged.
\<close>

theorem set_failing_write_counterexample:
  "fst (set_cache octet_stream
          (empty_world\<lparr>failing := (\<lambda>operation. operation = ClientSet)\<rparr>)
          ''/old'' (Some (REDIRECT (Some (JObj [(''destination'', JStr ''/new'')])))) None) =
     Inl (Thrown ClientSet) \<and>
   logs (snd (set_cache octet_stream
          (empty_world\<lparr>failing := (\<lambda>operation. operation = ClientSet)\<rparr>)
          ''/old'' (Some (REDIRECT (Some (JObj [(''destination'', JStr ''/new'')])))) None)) = []"
  by (simp add: set_cache_def store_artifact_def client_set_cache_def record_call_def
        empty_world_def Let_def)

end
